theory Spec2Isabelle
  imports Main "HOL-Library.Word" "HOL-Library.Char_ord" "HOL-Library.List_Lexorder"
    "HOL-Library.Sublist"
begin

section \<open>Events, errors and Go integers\<close>

text \<open>
  A \<open>uuid.UUID\<close> is a 16 byte array; only equality and the comparison with
  \<open>uuid.Nil\<close> (all bytes zero) are used by the code below.
\<close>

type_synonym uuid = "128 word"

definition uuid_Nil :: uuid where
  "uuid_Nil = 0"

text \<open>
  Go's \<open>int\<close> is a 64 bit two's complement integer. Versions are compared but, with one
  exception, never computed with; the exception is \<open>a.AggregateVersion()+1\<close> in the
  repository, whose wrap-around is written out with \<open>go_int\<close>.
\<close>

definition go_int :: "int \<Rightarrow> int" where
  "go_int x = (x + 2 ^ 63) mod 2 ^ 64 - 2 ^ 63"

text \<open>
  An \<open>event.Event\<close> as its accessor methods show it. The time is the number of
  nanoseconds since Go's zero time, so that \<open>Time.IsZero\<close> is the comparison with 0.
\<close>

record event =
  ID :: uuid
  Name :: string
  Time :: int
  Data :: string
  AggregateName :: string
  AggregateID :: uuid
  AggregateVersion :: int

text \<open>
  Errors are values. \<open>Wrap c e\<close> is \<open>fmt.Errorf(c + ": %w", e)\<close>; \<open>WrapInsert\<close> is the
  wrapping \<open>"insert %s:%s: %w"\<close> of the store's \<open>Insert\<close>, which formats the name and
  the id of the event. \<open>VersionError\<close> carries the four fields of the Go struct.
  \<open>DuplicateKey\<close> is the write error of a unique index, \<open>Backend\<close> any other error of
  the driver or the codec, with its message.
\<close>

datatype error =
  VersionError string uuid int event
  | ErrVersionNotFound
  | DuplicateKey
  | Backend string
  | Wrap string error
  | WrapInsert string uuid error

text \<open>\<open>errors.As(err, *VersionError)\<close>: walks the chain of wrapped errors.\<close>

fun as_VersionError :: "error \<Rightarrow> error option" where
  "as_VersionError (VersionError n i v e) = Some (VersionError n i v e)"
| "as_VersionError (Wrap c e) = as_VersionError e"
| "as_VersionError (WrapInsert n i e) = as_VersionError e"
| "as_VersionError _ = None"

definition found_VersionError :: "error option \<Rightarrow> error option" where
  "found_VersionError r = (case r of None \<Rightarrow> None | Some e \<Rightarrow> as_VersionError e)"

definition is_VersionError :: "error option \<Rightarrow> bool" where
  "is_VersionError r = (case r of None \<Rightarrow> False | Some e \<Rightarrow> as_VersionError e \<noteq> None)"

section \<open>The MongoDB event store\<close>

text \<open>
  The documents of the two collections. \<open>TimeNano\<close> is \<open>evt.Time().UnixNano()\<close>: the
  nanoseconds since the Unix epoch, as a wrapping 64 bit integer.
\<close>

record state =
  st_AggregateName :: string
  st_AggregageID :: uuid
  st_Version :: int

record entry =
  en_ID :: uuid
  en_Name :: string
  en_Time :: int
  en_TimeNano :: int
  en_AggregateName :: string
  en_AggregateID :: uuid
  en_AggregateVersion :: int
  en_Data :: string

record store =
  entries :: "entry list"
  states :: "state list"

text \<open>
  What the driver and the codec can answer beyond the contents of the collections: each
  field is the message of the error of one call of the source (\<open>None\<close>: the call
  succeeds). \<open>Decode_err\<close> is an error of \<open>res.Decode\<close> other than
  \<open>mongo.ErrNoDocuments\<close>.
\<close>

record backend =
  connectOnce_err :: "string option"
  StartTransaction_err :: "string option"
  Decode_err :: "string option"
  Encode :: "string \<Rightarrow> string + string"
  ReplaceOne_err :: "string option"
  AbortTransaction_err :: "string option"
  CommitTransaction_err :: "string option"

definition zero_state :: state where
  "zero_state = \<lparr>st_AggregateName = [], st_AggregageID = uuid_Nil, st_Version = 0\<rparr>"

text \<open>\<open>s.states.FindOne\<close> with the filter on name and id: the first matching document.\<close>

definition FindOne :: "state list \<Rightarrow> string \<Rightarrow> uuid \<Rightarrow> state option" where
  "FindOne sts n i = find (\<lambda>s. st_AggregateName s = n \<and> st_AggregageID s = i) sts"

text \<open>
  \<open>validateVersion\<close> returns a state and an error, as the Go function does. Only
  \<open>events[0]\<close> is looked at.
\<close>

definition validateVersion :: "backend \<Rightarrow> store \<Rightarrow> event list \<Rightarrow> state \<times> error option" where
  "validateVersion b s events =
    (case events of
      [] \<Rightarrow> (zero_state, None)
    | e0 # _ \<Rightarrow>
        let aggregateName = AggregateName e0; aggregateID = AggregateID e0 in
        if aggregateName = [] \<or> aggregateID = uuid_Nil then (zero_state, None)
        else
          (case Decode_err b of
            Some msg \<Rightarrow> (zero_state, Some (Wrap ''decode state'' (Backend msg)))
          | None \<Rightarrow>
              let st = (case FindOne (states s) aggregateName aggregateID of
                         Some found \<Rightarrow> found
                       | None \<Rightarrow> \<lparr>st_AggregateName = aggregateName,
                                   st_AggregageID = aggregateID, st_Version = 0\<rparr>) in
              if st_Version st \<ge> AggregateVersion e0
              then (st, Some (VersionError aggregateName aggregateID (st_Version st) e0))
              else (st, None)))"

text \<open>
  \<open>time.Time.UnixNano\<close>: the zero time lies 62135596800 seconds before the Unix epoch.
\<close>

definition UnixNano :: "int \<Rightarrow> int" where
  "UnixNano t = go_int (t - 62135596800 * 1000000000)"

definition make_entry :: "event \<Rightarrow> string \<Rightarrow> entry" where
  "make_entry evt bytes =
    \<lparr>en_ID = ID evt, en_Name = Name evt, en_Time = Time evt, en_TimeNano = UnixNano (Time evt),
     en_AggregateName = AggregateName evt, en_AggregateID = AggregateID evt,
     en_AggregateVersion = AggregateVersion evt, en_Data = bytes\<rparr>"

text \<open>
  The unique indexes that \<open>ensureIndexes\<close> creates on the events collection:
  \<open>goes_id\<close> on the id, and \<open>goes_aggregate\<close> on (aggregateName, aggregateId,
  aggregateVersion) for the documents with a non-empty name and a non-nil id.
\<close>

definition violates_index :: "entry list \<Rightarrow> entry \<Rightarrow> bool" where
  "violates_index es d =
    list_ex (\<lambda>x. en_ID x = en_ID d
        \<or> (en_AggregateName d \<noteq> [] \<and> en_AggregateID d \<noteq> uuid_Nil
           \<and> en_AggregateName x = en_AggregateName d \<and> en_AggregateID x = en_AggregateID d
           \<and> en_AggregateVersion x = en_AggregateVersion d)) es"

definition InsertOne :: "entry list \<Rightarrow> entry \<Rightarrow> error + entry list" where
  "InsertOne es d = (if violates_index es d then Inl DuplicateKey else Inr (es @ [d]))"

text \<open>
  \<open>Store.insert\<close>: encode the data, insert one document. (The context of the encoding
  error is written without the quotes that \<open>%q\<close> puts around the name.)
\<close>

definition insert_evt :: "backend \<Rightarrow> entry list \<Rightarrow> event \<Rightarrow> error + entry list" where
  "insert_evt b es evt =
    (case Encode b (Data evt) of
      Inl msg \<Rightarrow> Inl (Wrap (''encode '' @ Name evt @ '' event data'') (Backend msg))
    | Inr bytes \<Rightarrow>
        (case InsertOne es (make_entry evt bytes) of
          Inl err \<Rightarrow> Inl (Wrap ''mongo'' err)
        | Inr es' \<Rightarrow> Inr es'))"

text \<open>
  The loop of \<open>Insert\<close> over the events: it stops at the first event whose insertion
  fails and reports that event with the error.
\<close>

fun insert_all :: "backend \<Rightarrow> entry list \<Rightarrow> event list \<Rightarrow> (event \<times> error) + entry list" where
  "insert_all b es [] = Inr es"
| "insert_all b es (evt # evts) =
    (case insert_evt b es evt of
      Inl err \<Rightarrow> Inl (evt, err)
    | Inr es' \<Rightarrow> insert_all b es' evts)"

text \<open>\<open>ReplaceOne\<close> with upsert: the first matching document is replaced, or one is added.\<close>

fun ReplaceOne :: "state list \<Rightarrow> string \<Rightarrow> uuid \<Rightarrow> state \<Rightarrow> state list" where
  "ReplaceOne [] n i st = [st]"
| "ReplaceOne (x # xs) n i st =
    (if st_AggregateName x = n \<and> st_AggregageID x = i then st # xs
     else x # ReplaceOne xs n i st)"

definition updateState :: "backend \<Rightarrow> state list \<Rightarrow> state \<Rightarrow> event list \<Rightarrow> error + state list" where
  "updateState b sts st events =
    (if events = [] \<or> st_AggregateName st = [] \<or> st_AggregageID st = uuid_Nil then Inr sts
     else
       let st' = st\<lparr>st_Version := AggregateVersion (last events)\<rparr> in
       (case ReplaceOne_err b of
         Some msg \<Rightarrow> Inl (Wrap ''mongo'' (Backend msg))
       | None \<Rightarrow> Inr (ReplaceOne sts (st_AggregateName st') (st_AggregageID st') st')))"

text \<open>
  The error of a failed step inside the transaction: the transaction is aborted, and a
  failing abort replaces the error.
\<close>

definition aborted :: "backend \<Rightarrow> error \<Rightarrow> error" where
  "aborted b err =
    (case AbortTransaction_err b of
      Some msg \<Rightarrow> Wrap ''abort transaction'' (Backend msg)
    | None \<Rightarrow> err)"

text \<open>
  \<open>Store.Insert\<close>. The writes happen in a transaction: the returned store is the one
  the call started from unless the transaction was committed.
\<close>

definition Insert :: "backend \<Rightarrow> store \<Rightarrow> event list \<Rightarrow> error option \<times> store" where
  "Insert b s events =
    (case connectOnce_err b of
      Some msg \<Rightarrow> (Some (Wrap ''connect'' (Backend msg)), s)
    | None \<Rightarrow>
    (case StartTransaction_err b of
      Some msg \<Rightarrow> (Some (Wrap ''start transaction'' (Backend msg)), s)
    | None \<Rightarrow>
    (case validateVersion b s events of
      (st, Some err) \<Rightarrow> (Some (Wrap ''validate version'' err), s)
    | (st, None) \<Rightarrow>
    (case insert_all b (entries s) events of
      Inl (evt, err) \<Rightarrow> (Some (aborted b (WrapInsert (Name evt) (ID evt) err)), s)
    | Inr es' \<Rightarrow>
    (case updateState b (states s) st events of
      Inl err \<Rightarrow> (Some (aborted b (Wrap ''update state'' err)), s)
    | Inr sts' \<Rightarrow>
    (case CommitTransaction_err b of
      Some msg \<Rightarrow> (Some (Wrap ''commit transaction'' (Backend msg)), s)
    | None \<Rightarrow> (None, \<lparr>entries = es', states = sts'\<rparr>)))))))"

text \<open>The document that \<open>Store.insert\<close> writes for an event whose data the codec encodes.\<close>

definition entry_of :: "backend \<Rightarrow> event \<Rightarrow> entry" where
  "entry_of b evt = make_entry evt (case Encode b (Data evt) of Inr bytes \<Rightarrow> bytes | Inl _ \<Rightarrow> [])"

text \<open>A backend in which every call of the driver and the codec succeeds.\<close>

definition reliable :: backend where
  "reliable = \<lparr>connectOnce_err = None, StartTransaction_err = None, Decode_err = None,
     Encode = Inr, ReplaceOne_err = None, AbortTransaction_err = None,
     CommitTransaction_err = None\<rparr>"

text \<open>The current version of an aggregate: the version of its state document, 0 without one.\<close>

definition currentVersion :: "store \<Rightarrow> string \<Rightarrow> uuid \<Rightarrow> int" where
  "currentVersion s n i = (case FindOne (states s) n i of None \<Rightarrow> 0 | Some st \<Rightarrow> st_Version st)"

text \<open>
  The rule of the specification for a call of \<open>Insert\<close>, in its words: all events belong
  to the same aggregate (same name, same id) and their versions form a contiguous
  increasing sequence starting at \<open>currentVersion + 1\<close>.
\<close>

definition spec_valid_batch :: "int \<Rightarrow> event list \<Rightarrow> bool" where
  "spec_valid_batch cur events =
    (list_all (\<lambda>e. AggregateName e = AggregateName (hd events)
                 \<and> AggregateID e = AggregateID (hd events)) events
     \<and> map AggregateVersion events = [cur + 1 .. cur + int (length events)])"


section \<open>Queries\<close>

text \<open>
  Modelled from the spec: the packages \<open>event/query\<close>, \<open>event/query/version\<close> and
  \<open>event/query/time\<close> are not among the sources. A query is the value object of its
  accessors (names, ids, times, aggregate names, aggregate ids, aggregate versions,
  sortings); a zero time bound means that there is none, as in \<open>withTimeFilter\<close>.
\<close>

record time_constraints =
  t_Exact :: "int list"
  t_Min :: int
  t_Max :: int
  t_Ranges :: "(int \<times> int) list"

record version_constraints =
  v_Exact :: "int list"
  v_Min :: "int list"
  v_Max :: "int list"
  v_Ranges :: "(int \<times> int) list"

datatype sorting = SortTime | SortAggregateName | SortAggregateID | SortAggregateVersion

datatype direction = SortAsc | SortDesc

record query =
  Names :: "string list"
  IDs :: "uuid list"
  Times :: time_constraints
  AggregateNames :: "string list"
  AggregateIDs :: "uuid list"
  AggregateVersions :: version_constraints
  Sortings :: "(sorting \<times> direction) list"

definition no_times :: time_constraints where
  "no_times = \<lparr>t_Exact = [], t_Min = 0, t_Max = 0, t_Ranges = []\<rparr>"

definition no_versions :: version_constraints where
  "no_versions = \<lparr>v_Exact = [], v_Min = [], v_Max = [], v_Ranges = []\<rparr>"

definition empty_query :: query where
  "empty_query = \<lparr>Names = [], IDs = [], Times = no_times, AggregateNames = [],
     AggregateIDs = [], AggregateVersions = no_versions, Sortings = []\<rparr>"

text \<open>
  Modelled from the spec: the options of the packages \<open>query\<close>, \<open>version\<close> and \<open>time\<close>
  that the repository and the projection job build their queries from, and
  \<open>query.New\<close>, which composes a query from options; a field without an option has no
  constraint. \<open>time.After\<close> allows the times after \<open>t\<close>: the inclusive lower bound is the
  next nanosecond.
\<close>

datatype version_option = version_Min int | version_Max int

datatype time_option = time_After int

datatype query_option =
  query_AggregateName "string list"
  | query_AggregateID "uuid list"
  | query_AggregateVersion "version_option list"
  | query_SortBy sorting direction
  | query_Time "time_option list"

fun apply_version_option :: "version_constraints \<Rightarrow> version_option \<Rightarrow> version_constraints" where
  "apply_version_option c (version_Min v) = c\<lparr>v_Min := v_Min c @ [v]\<rparr>"
| "apply_version_option c (version_Max v) = c\<lparr>v_Max := v_Max c @ [v]\<rparr>"

fun apply_time_option :: "time_constraints \<Rightarrow> time_option \<Rightarrow> time_constraints" where
  "apply_time_option c (time_After t) = c\<lparr>t_Min := t + 1\<rparr>"

fun apply_option :: "query \<Rightarrow> query_option \<Rightarrow> query" where
  "apply_option q (query_AggregateName ns) = q\<lparr>AggregateNames := AggregateNames q @ ns\<rparr>"
| "apply_option q (query_AggregateID is) = q\<lparr>AggregateIDs := AggregateIDs q @ is\<rparr>"
| "apply_option q (query_AggregateVersion os) =
     q\<lparr>AggregateVersions := foldl apply_version_option (AggregateVersions q) os\<rparr>"
| "apply_option q (query_SortBy srt dir) = q\<lparr>Sortings := [(srt, dir)]\<rparr>"
| "apply_option q (query_Time os) = q\<lparr>Times := foldl apply_time_option (Times q) os\<rparr>"

definition query_New :: "query_option list \<Rightarrow> query" where
  "query_New opts = foldl apply_option empty_query opts"

text \<open>
  Modelled from the spec: \<open>query.Test\<close> is not among the sources. An event matches iff
  it satisfies every non-empty constraint set; bounds and ranges are inclusive; the
  version minima and maxima are satisfied if any listed bound is.
\<close>

definition test_times :: "time_constraints \<Rightarrow> int \<Rightarrow> bool" where
  "test_times c t =
    ((t_Exact c = [] \<or> t \<in> set (t_Exact c))
     \<and> (t_Min c = 0 \<or> t_Min c \<le> t)
     \<and> (t_Max c = 0 \<or> t \<le> t_Max c)
     \<and> (t_Ranges c = [] \<or> list_ex (\<lambda>(lo, hi). lo \<le> t \<and> t \<le> hi) (t_Ranges c)))"

definition test_versions :: "version_constraints \<Rightarrow> int \<Rightarrow> bool" where
  "test_versions c v =
    ((v_Exact c = [] \<or> v \<in> set (v_Exact c))
     \<and> (v_Min c = [] \<or> list_ex (\<lambda>m. m \<le> v) (v_Min c))
     \<and> (v_Max c = [] \<or> list_ex (\<lambda>m. v \<le> m) (v_Max c))
     \<and> (v_Ranges c = [] \<or> list_ex (\<lambda>(lo, hi). lo \<le> v \<and> v \<le> hi) (v_Ranges c)))"

definition Test :: "query \<Rightarrow> event \<Rightarrow> bool" where
  "Test q evt =
    ((Names q = [] \<or> Name evt \<in> set (Names q))
     \<and> (IDs q = [] \<or> ID evt \<in> set (IDs q))
     \<and> test_times (Times q) (Time evt)
     \<and> (AggregateNames q = [] \<or> AggregateName evt \<in> set (AggregateNames q))
     \<and> (AggregateIDs q = [] \<or> AggregateID evt \<in> set (AggregateIDs q))
     \<and> test_versions (AggregateVersions q) (AggregateVersion evt))"

text \<open>
  Modelled from the spec: the sort semantics of a store. Sorting is stable and
  lexicographic across the sortings: the events are sorted by the last key first. A
  descending stable sort reverses, sorts and reverses.
\<close>

fun sort_asc :: "sorting \<Rightarrow> event list \<Rightarrow> event list" where
  "sort_asc SortTime evts = sort_key Time evts"
| "sort_asc SortAggregateName evts = sort_key AggregateName evts"
| "sort_asc SortAggregateID evts = sort_key AggregateID evts"
| "sort_asc SortAggregateVersion evts = sort_key AggregateVersion evts"

fun sort_one :: "sorting \<times> direction \<Rightarrow> event list \<Rightarrow> event list" where
  "sort_one (srt, SortAsc) evts = sort_asc srt evts"
| "sort_one (srt, SortDesc) evts = rev (sort_asc srt (rev evts))"

definition sort_events :: "(sorting \<times> direction) list \<Rightarrow> event list \<Rightarrow> event list" where
  "sort_events sortings evts = foldr sort_one sortings evts"

text \<open>
  Modelled from the spec: \<open>estream.All\<close>, the drain helper of the stream utilities, is
  not among the sources. An \<open>event.Stream\<close> is a cursor: the events it yields and the
  error it ends with, if any; \<open>estream.All\<close> returns both.
\<close>

type_synonym stream = "event list \<times> error option"

definition estream_All :: "stream \<Rightarrow> event list \<times> error option" where
  "estream_All str = str"

text \<open>
  Modelled from the spec: the \<open>Query\<close> of an event store over the events it holds
  produces the events matching the query, ordered by its sortings.
\<close>

definition Store_Query :: "event list \<Rightarrow> query \<Rightarrow> error + stream" where
  "Store_Query stored q = Inr (sort_events (Sortings q) (filter (Test q) stored), None)"

text \<open>
  The events of the aggregate \<open>(n, i)\<close> with a version between \<open>lo\<close> and \<open>hi\<close>, in
  ascending order of their versions (and, for equal versions, in the order of the store).
\<close>

definition events_between :: "event list \<Rightarrow> string \<Rightarrow> uuid \<Rightarrow> int \<Rightarrow> int \<Rightarrow> event list" where
  "events_between stored n i lo hi =
    sort_key AggregateVersion
      (filter (\<lambda>evt. AggregateName evt = n \<and> AggregateID evt = i
                  \<and> lo \<le> AggregateVersion evt \<and> AggregateVersion evt \<le> hi) stored)"

section \<open>The aggregate repository\<close>

text \<open>
  An aggregate as the repository sees it through the methods \<open>AggregateName\<close>,
  \<open>AggregateID\<close>, \<open>AggregateVersion\<close> and \<open>AggregateChanges\<close>.
\<close>

record aggregate =
  a_AggregateName :: string
  a_AggregateID :: uuid
  a_AggregateVersion :: int
  a_AggregateChanges :: "event list"

text \<open>
  Modelled from the spec: \<open>FlushChanges\<close> is a method of the aggregate, which is not
  among the sources; it clears the uncommitted changes.
\<close>

definition FlushChanges :: "aggregate \<Rightarrow> aggregate" where
  "FlushChanges a = a\<lparr>a_AggregateChanges := []\<rparr>"

text \<open>
  Modelled from the spec: \<open>aggregate.ApplyHistory\<close> is not among the sources; it
  applies the events in order, and the aggregate advances its version after each
  applied event. The repository functions take the function as a parameter, since the
  conditions of its error are not specified.
\<close>

definition ApplyHistory :: "aggregate \<Rightarrow> event list \<Rightarrow> error option \<times> aggregate" where
  "ApplyHistory a evts =
    (None, foldl (\<lambda>a evt. a\<lparr>a_AggregateVersion := AggregateVersion evt\<rparr>) a evts)"

text \<open>
  \<open>repository.Save\<close>. The store is the interface \<open>event.Store\<close>: its \<open>Insert\<close> is the
  parameter \<open>ins\<close>, which returns the error and the store after the call.
\<close>

definition Save ::
  "('s \<Rightarrow> event list \<Rightarrow> error option \<times> 's) \<Rightarrow> 's \<Rightarrow> aggregate \<Rightarrow> error option \<times> 's \<times> aggregate" where
  "Save ins s a =
    (case ins s (a_AggregateChanges a) of
      (Some err, s') \<Rightarrow> (Some (Wrap ''insert events'' err), s', a)
    | (None, s') \<Rightarrow> (None, s', FlushChanges a))"

text \<open>\<open>repository.queryEvents\<close>; \<open>qry\<close> is the \<open>Query\<close> of the store.\<close>

definition queryEvents :: "(query \<Rightarrow> error + stream) \<Rightarrow> query \<Rightarrow> error + event list" where
  "queryEvents qry q =
    (case qry q of
      Inl err \<Rightarrow> Inl (Wrap ''query events'' err)
    | Inr str \<Rightarrow>
        (case estream_All str of
          (evts, Some err) \<Rightarrow> Inl (Wrap ''stream'' err)
        | (evts, None) \<Rightarrow> Inr evts))"

text \<open>\<open>repository.fetch\<close>; \<open>apply_history\<close> is \<open>aggregate.ApplyHistory\<close>.\<close>

definition fetch ::
  "(query \<Rightarrow> error + stream) \<Rightarrow> (aggregate \<Rightarrow> event list \<Rightarrow> error option \<times> aggregate) \<Rightarrow>
    aggregate \<Rightarrow> query_option list \<Rightarrow> error option \<times> aggregate" where
  "fetch qry apply_history a opts =
    (let opts' = [query_AggregateName [a_AggregateName a],
                  query_AggregateID [a_AggregateID a],
                  query_SortBy SortAggregateVersion SortAsc] @ opts in
     case queryEvents qry (query_New opts') of
       Inl err \<Rightarrow> (Some (Wrap ''query events'' err), a)
     | Inr evts \<Rightarrow>
         (case apply_history a evts of
           (Some err, a') \<Rightarrow> (Some (Wrap ''apply events'' err), a')
         | (None, a') \<Rightarrow> (None, a')))"

definition Fetch ::
  "(query \<Rightarrow> error + stream) \<Rightarrow> (aggregate \<Rightarrow> event list \<Rightarrow> error option \<times> aggregate) \<Rightarrow>
    aggregate \<Rightarrow> error option \<times> aggregate" where
  "Fetch qry apply_history a =
    fetch qry apply_history a
      [query_AggregateVersion [version_Min (go_int (a_AggregateVersion a + 1))]]"

definition FetchVersion ::
  "(query \<Rightarrow> error + stream) \<Rightarrow> (aggregate \<Rightarrow> event list \<Rightarrow> error option \<times> aggregate) \<Rightarrow>
    aggregate \<Rightarrow> int \<Rightarrow> error option \<times> aggregate" where
  "FetchVersion qry apply_history a v0 =
    (let v = (if v0 < 0 then 0 else v0) in
     case fetch qry apply_history a
            [query_AggregateVersion [version_Min (go_int (a_AggregateVersion a + 1)),
                                     version_Max v]] of
       (Some err, a') \<Rightarrow> (Some err, a')
     | (None, a') \<Rightarrow>
         if a_AggregateVersion a' \<noteq> v then (Some ErrVersionNotFound, a') else (None, a'))"


section \<open>The projection job and its query cache\<close>

text \<open>
  The key of the cache is the SHA-256 sum of the printed query, a 32 byte array. The
  printing and the hash function are the parameter \<open>hashQuery\<close>.
\<close>

type_synonym hash = "256 word"

type_synonym cache = "hash \<rightharpoonup> event list"

text \<open>
  \<open>queryCache.cached\<close> returns a copy of the cached slice and whether there is one; the
  locking flag does not change the result.
\<close>

definition cached :: "cache \<Rightarrow> hash \<Rightarrow> bool \<Rightarrow> event list \<times> bool" where
  "cached c h lock = (case c h of Some evts \<Rightarrow> (evts, True) | None \<Rightarrow> ([], False))"

definition update :: "cache \<Rightarrow> hash \<Rightarrow> event list \<Rightarrow> cache" where
  "update c h evts = c(h \<mapsto> evts)"

text \<open>
  What \<open>queryCache.run\<close> returns: the replay of a cached slice (\<open>eventStream\<close>), the
  stream of the store behind the interceptor of the hash, or the error of the store.
\<close>

datatype 's run_result =
  Replay "event list"
  | Intercept 's hash
  | RunError error

text \<open>
  \<open>queryCache.run\<close>. The cache is read twice: \<open>c1\<close> is its content at the first
  check, \<open>c2\<close> its content once the lock of the query is held. \<open>store_Query\<close> is the
  \<open>Query\<close> of the store, which returns its stream of type \<open>'s\<close> or an error.
\<close>

definition run ::
  "('q \<Rightarrow> hash) \<Rightarrow> ('q \<Rightarrow> error + 's) \<Rightarrow> cache \<Rightarrow> cache \<Rightarrow> 'q \<Rightarrow> 's run_result" where
  "run hashQuery store_Query c1 c2 q =
    (let h = hashQuery q in
     case cached c1 h True of
       (evts, True) \<Rightarrow> Replay evts
     | (_, False) \<Rightarrow>
         (case cached c2 h False of
           (evts, True) \<Rightarrow> Replay evts
         | (_, False) \<Rightarrow>
             (case store_Query q of
               Inl err \<Rightarrow> RunError (Wrap ''query events'' err)
             | Inr str \<Rightarrow> Intercept str h)))"

text \<open>
  The goroutine of \<open>queryCache.intercept\<close> is a loop around two \<open>select\<close> statements.
  One turn of the loop is described by what the selects chose. The flag of a choice
  other than \<open>ctx.Done()\<close> tells whether the context was already canceled at that
  select, so that \<open>ctx.Done()\<close> was ready as well and the runtime chose the other ready
  case; the code cannot see the flag.
\<close>

datatype inner_choice = InnerCtxDone | OutSent bool

datatype outer_choice = OuterCtxDone | InClosed bool | InRecv bool event inner_choice

datatype status = Blocked | Aborted | Committed

text \<open>
  \<open>intercept\<close>: the cache after the goroutine has gone through the choices, the events
  forwarded to the consumer, and whether the goroutine has returned. \<open>evts\<close> is the
  accumulated slice.
\<close>

fun intercept_loop ::
  "cache \<Rightarrow> hash \<Rightarrow> event list \<Rightarrow> outer_choice list \<Rightarrow> cache \<times> event list \<times> status" where
  "intercept_loop c h evts [] = (c, evts, Blocked)"
| "intercept_loop c h evts (OuterCtxDone # _) = (c, evts, Aborted)"
| "intercept_loop c h evts (InClosed _ # _) = (update c h evts, evts, Committed)"
| "intercept_loop c h evts (InRecv _ evt InnerCtxDone # _) = (c, evts, Aborted)"
| "intercept_loop c h evts (InRecv _ evt (OutSent _) # rest) =
     intercept_loop c h (evts @ [evt]) rest"

definition intercept :: "cache \<Rightarrow> hash \<Rightarrow> outer_choice list \<Rightarrow> cache \<times> event list \<times> status" where
  "intercept c h choices = intercept_loop c h [] choices"


text \<open>Whether the context was canceled at some select of the choices.\<close>

fun inner_canceled :: "inner_choice \<Rightarrow> bool" where
  "inner_canceled InnerCtxDone = True"
| "inner_canceled (OutSent canceled) = canceled"

fun outer_canceled :: "outer_choice \<Rightarrow> bool" where
  "outer_canceled OuterCtxDone = True"
| "outer_canceled (InClosed canceled) = canceled"
| "outer_canceled (InRecv canceled evt i) = (canceled \<or> inner_canceled i)"

definition ctx_canceled :: "outer_choice list \<Rightarrow> bool" where
  "ctx_canceled choices = list_ex outer_canceled choices"



text \<open>
  A projection target is an interface value; \<open>EventsFor\<close> asks whether it implements
  \<open>ProgressAware\<close> and, if so, for the time of its progress.
\<close>

datatype target = PlainTarget | ProgressAwareTarget int

text \<open>
  The job. An interceptor of \<open>beforeEvent\<close> returns the events to insert or an error.
\<close>

record 'q job =
  job_query :: 'q
  job_beforeEvent :: "(event \<Rightarrow> error + event list) list"
  job_filter :: "'q list"
  job_reset :: bool

text \<open>
  What \<open>job.queryEvents\<close> returns: the stream of the cache, the interceptors it is led
  through (none if the job has none) and the queries it is filtered by (none if there is
  none). \<open>streams.BeforeContext\<close> and \<open>event.Filter\<close>, which do that, are not among the
  sources.
\<close>

definition job_queryEvents ::
  "('q \<Rightarrow> hash) \<Rightarrow> ('q \<Rightarrow> error + 's) \<Rightarrow> cache \<Rightarrow> cache \<Rightarrow> 'q job \<Rightarrow> 'q \<Rightarrow> 'q list \<Rightarrow>
    error + ('s run_result \<times> (event \<Rightarrow> error + event list) list \<times> 'q list)" where
  "job_queryEvents hashQuery store_Query c1 c2 j q flt =
    (case run hashQuery store_Query c1 c2 q of
      RunError err \<Rightarrow> Inl err
    | str \<Rightarrow> Inr (str, job_beforeEvent j, job_filter j @ flt))"

text \<open>
  The query of \<open>job.EventsFor\<close>. \<open>Merge\<close> is \<open>query.Merge\<close> and \<open>After t\<close> is
  \<open>query.New(query.Time(time.After(t)))\<close>; the time is counted in nanoseconds from the
  zero time, so that \<open>IsZero\<close> compares with 0 and \<open>Add(-time.Nanosecond)\<close> subtracts 1.
\<close>

definition EventsFor_query :: "('q \<Rightarrow> 'q \<Rightarrow> 'q) \<Rightarrow> (int \<Rightarrow> 'q) \<Rightarrow> 'q job \<Rightarrow> target \<Rightarrow> 'q" where
  "EventsFor_query Merge After j tgt =
    (case tgt of
      ProgressAwareTarget progressTime \<Rightarrow>
        if progressTime \<noteq> 0 then Merge (job_query j) (After (progressTime - 1))
        else job_query j
    | PlainTarget \<Rightarrow> job_query j)"

definition EventsFor ::
  "('q \<Rightarrow> hash) \<Rightarrow> ('q \<Rightarrow> error + 's) \<Rightarrow> ('q \<Rightarrow> 'q \<Rightarrow> 'q) \<Rightarrow> (int \<Rightarrow> 'q) \<Rightarrow>
    cache \<Rightarrow> cache \<Rightarrow> 'q job \<Rightarrow> target \<Rightarrow>
    error + ('s run_result \<times> (event \<Rightarrow> error + event list) list \<times> 'q list)" where
  "EventsFor hashQuery store_Query Merge After c1 c2 j tgt =
    job_queryEvents hashQuery store_Query c1 c2 j (EventsFor_query Merge After j tgt) []"

text \<open>
  Modelled from the spec: \<open>query.Merge\<close> is not among the sources. It is the field-wise
  union of the membership sets, the narrowing of the bounds (the later of the time
  minima, the earlier of the maxima, a zero bound being none) and the concatenation of
  the ranges and the sortings.
\<close>

definition merge_min :: "int \<Rightarrow> int \<Rightarrow> int" where
  "merge_min a b = (if a = 0 then b else if b = 0 then a else max a b)"

definition merge_max :: "int \<Rightarrow> int \<Rightarrow> int" where
  "merge_max a b = (if a = 0 then b else if b = 0 then a else min a b)"

definition query_Merge :: "query \<Rightarrow> query \<Rightarrow> query" where
  "query_Merge p q =
    \<lparr>Names = Names p @ Names q, IDs = IDs p @ IDs q,
     Times = \<lparr>t_Exact = t_Exact (Times p) @ t_Exact (Times q),
              t_Min = merge_min (t_Min (Times p)) (t_Min (Times q)),
              t_Max = merge_max (t_Max (Times p)) (t_Max (Times q)),
              t_Ranges = t_Ranges (Times p) @ t_Ranges (Times q)\<rparr>,
     AggregateNames = AggregateNames p @ AggregateNames q,
     AggregateIDs = AggregateIDs p @ AggregateIDs q,
     AggregateVersions =
       \<lparr>v_Exact = v_Exact (AggregateVersions p) @ v_Exact (AggregateVersions q),
        v_Min = v_Min (AggregateVersions p) @ v_Min (AggregateVersions q),
        v_Max = v_Max (AggregateVersions p) @ v_Max (AggregateVersions q),
        v_Ranges = v_Ranges (AggregateVersions p) @ v_Ranges (AggregateVersions q)\<rparr>,
     Sortings = Sortings p @ Sortings q\<rparr>"

section \<open>Schedules and subscriptions\<close>

text \<open>The ticket of a schedule.\<close>

record job_ticket =
  aggregateName :: string
  aggregateID :: uuid

text \<open>The continuous schedule (the bus it holds is the source of the events).\<close>

record 'q continously =
  c_filter :: 'q
  c_events :: "string list"

text \<open>\<open>shouldDiscard\<close>; \<open>test\<close> is \<open>query.Test\<close>.\<close>

definition shouldDiscard :: "('q \<Rightarrow> event \<Rightarrow> bool) \<Rightarrow> event \<Rightarrow> 'q \<Rightarrow> bool" where
  "shouldDiscard test evt q =
    (if AggregateName evt = [] \<or> AggregateID evt = uuid_Nil then True
     else \<not> test q evt)"

text \<open>
  \<open>continously.handleEvents\<close>: the tickets sent to the jobs channel for the events
  received from the bus, in their order.
\<close>

fun handleEvents :: "('q \<Rightarrow> event \<Rightarrow> bool) \<Rightarrow> 'q continously \<Rightarrow> event list \<Rightarrow> job_ticket list" where
  "handleEvents test c [] = []"
| "handleEvents test c (evt # evts) =
    (if shouldDiscard test evt (c_filter c) then handleEvents test c evts
     else \<lparr>aggregateName = AggregateName evt, aggregateID = AggregateID evt\<rparr>
          # handleEvents test c evts)"

text \<open>
  The subscription, as far as \<open>handleCancel\<close> reads it: the timeout is a
  \<open>time.Duration\<close>, a number of nanoseconds, and is zero unless the option
  \<open>StopTimeout\<close> sets it.
\<close>

record subscription =
  stopTimeout :: int

definition StopTimeout :: "int \<Rightarrow> subscription \<Rightarrow> subscription" where
  "StopTimeout d sub = sub\<lparr>stopTimeout := d\<rparr>"

definition newSubscription :: "(subscription \<Rightarrow> subscription) list \<Rightarrow> subscription" where
  "newSubscription opts = foldl (\<lambda>sub opt. opt sub) \<lparr>stopTimeout = 0\<rparr> opts"

text \<open>
  \<open>handleCancel\<close> waits at two selects. The signals are what becomes ready, in the
  order in which it does: \<open>handleDone\<close> is closed (the handler loop has returned), the
  parent context is done, the timer of the timeout fires. The function returns, and so
  closes \<open>stop\<close>, after the number of signals given by the result; \<open>None\<close> means that
  it is still waiting when the signals are used up. Without a timeout the channel
  \<open>timeout\<close> is nil: no timer is started and the second select has one case that can
  become ready.
\<close>

datatype signal = HandleDone | ParentDone | TimerFired

fun second_select :: "bool \<Rightarrow> signal list \<Rightarrow> nat option" where
  "second_select timer [] = None"
| "second_select timer (HandleDone # _) = Some 1"
| "second_select timer (TimerFired # sigs) =
     (if timer then Some 1 else map_option Suc (second_select timer sigs))"
| "second_select timer (ParentDone # sigs) = map_option Suc (second_select timer sigs)"

fun handleCancel :: "subscription \<Rightarrow> signal list \<Rightarrow> nat option" where
  "handleCancel sub [] = None"
| "handleCancel sub (HandleDone # _) = Some 1"
| "handleCancel sub (ParentDone # sigs) =
     map_option Suc (second_select (stopTimeout sub > 0) sigs)"
| "handleCancel sub (TimerFired # sigs) = map_option Suc (handleCancel sub sigs)"

text \<open>The position of the first element of a list that satisfies a predicate, from 1.\<close>

fun first_pos :: "('a \<Rightarrow> bool) \<Rightarrow> 'a list \<Rightarrow> nat option" where
  "first_pos P [] = None"
| "first_pos P (x # xs) = (if P x then Some 1 else map_option Suc (first_pos P xs))"


section \<open>Example data\<close>

definition example_event :: "uuid \<Rightarrow> string \<Rightarrow> uuid \<Rightarrow> int \<Rightarrow> event" where
  "example_event i an ai av =
    \<lparr>ID = i, Name = ''changed'', Time = 1000, Data = ''payload'', AggregateName = an,
     AggregateID = ai, AggregateVersion = av\<rparr>"

definition empty_store :: store where
  "empty_store = \<lparr>entries = [], states = []\<rparr>"

text \<open>The store after the event with id 1 and version 1 of the aggregate (foo, 9).\<close>

definition store_one :: store where
  "store_one =
    \<lparr>entries = [make_entry (example_event 1 ''foo'' 9 1) ''payload''],
     states = [\<lparr>st_AggregateName = ''foo'', st_AggregageID = 9, st_Version = 1\<rparr>]\<rparr>"

text \<open>A batch with a gap: versions 1 and 3 for a new aggregate.\<close>

definition batch_gap :: "event list" where
  "batch_gap = [example_event 1 ''foo'' 9 1, example_event 2 ''foo'' 9 3]"


text \<open>An aggregate (foo, 9) whose only change has the stored version 1.\<close>

definition stale_foo :: aggregate where
  "stale_foo = \<lparr>a_AggregateName = ''foo'', a_AggregateID = 9, a_AggregateVersion = 0,
     a_AggregateChanges = [example_event 2 ''foo'' 9 1]\<rparr>"

definition changed_foo :: aggregate where
  "changed_foo = \<lparr>a_AggregateName = ''foo'', a_AggregateID = 9, a_AggregateVersion = 1,
     a_AggregateChanges = [example_event 2 ''foo'' 9 2, example_event 3 ''foo'' 9 3]\<rparr>"

definition fresh_foo :: aggregate where
  "fresh_foo = \<lparr>a_AggregateName = ''foo'', a_AggregateID = 9, a_AggregateVersion = 0,
     a_AggregateChanges = []\<rparr>"

definition stored_foo :: "event list" where
  "stored_foo = [example_event 3 ''foo'' 9 3, example_event 4 ''bar'' 9 1,
     example_event 1 ''foo'' 9 1, example_event 2 ''foo'' 9 2]"

text \<open>A job whose base query selects the events of the aggregates named foo.\<close>

definition foo_job :: "query job" where
  "foo_job = \<lparr>job_query = query_New [query_AggregateName [''foo'']], job_beforeEvent = [],
     job_filter = [], job_reset = False\<rparr>"

text \<open>\<open>query.New(query.Time(time.After(t)))\<close> on the modelled queries.\<close>

definition After_query :: "int \<Rightarrow> query" where
  "After_query t = query_New [query_Time [time_After t]]"

text \<open>A store whose stream shows the query it was asked.\<close>

definition echo_Query :: "query \<Rightarrow> error + query" where
  "echo_Query q = Inr q"

definition foo_continously :: "query continously" where
  "foo_continously = \<lparr>c_filter = query_New [query_AggregateName [''foo'']], c_events = [''changed'']\<rparr>"

text \<open>
  A build during which the context is canceled: the first event is forwarded, then the
  context is canceled and the store closes its stream, and the select chooses the closed
  stream.
\<close>

definition canceled_build :: "outer_choice list" where
  "canceled_build = [InRecv False (example_event 1 ''foo'' 9 1) (OutSent False), InClosed True]"



section \<open>The store's version check\<close>

lemma as_VersionError_insert_all:
  "insert_all b es evts = Inl (evt, err) \<Longrightarrow> as_VersionError err = None"
  by (induction evts arbitrary: es)
     (auto simp: insert_evt_def InsertOne_def split: sum.splits if_splits)

lemma as_VersionError_updateState:
  "updateState b sts st evts = Inl err \<Longrightarrow> as_VersionError err = None"
  by (auto simp: updateState_def Let_def split: if_splits option.splits)

lemma as_VersionError_aborted:
  "as_VersionError err = None \<Longrightarrow> as_VersionError (aborted b err) = None"
  by (auto simp: aborted_def split: option.splits)

text \<open>Once the version check has passed, no later step fails with a \<open>VersionError\<close>.\<close>

lemma Insert_validated:
  assumes "validateVersion b s evs = (st, None)"
  shows "\<not> is_VersionError (fst (Insert b s evs))"
proof (cases "insert_all b (entries s) evs")
  case (Inl p)
  obtain evt err where p: "p = (evt, err)" by (cases p)
  have "as_VersionError (aborted b (WrapInsert (Name evt) (ID evt) err)) = None"
    using as_VersionError_insert_all [of b "entries s" evs evt err] Inl p
    by (simp add: as_VersionError_aborted)
  then show ?thesis
    using assms Inl p
    by (simp add: Insert_def is_VersionError_def split: option.splits)
next
  case (Inr es')
  show ?thesis
  proof (cases "updateState b (states s) st evs")
    case (Inl err)
    have "as_VersionError (aborted b (Wrap ''update state'' err)) = None"
      using as_VersionError_updateState [OF Inl] by (simp add: as_VersionError_aborted)
    then show ?thesis
      using assms Inr Inl
      by (simp add: Insert_def is_VersionError_def split: option.splits)
  next
    case (Inr sts')
    then show ?thesis
      using assms \<open>insert_all b (entries s) evs = Inr es'\<close>
      by (simp add: Insert_def is_VersionError_def split: option.splits)
  qed
qed

lemma Insert_invalid:
  assumes "connectOnce_err b = None" and "StartTransaction_err b = None"
    and "validateVersion b s evs = (st, Some err)"
  shows "Insert b s evs = (Some (Wrap ''validate version'' err), s)"
  using assms by (simp add: Insert_def)

lemma validateVersion_triple:
  assumes "AggregateName e0 \<noteq> []" and "AggregateID e0 \<noteq> uuid_Nil" and "Decode_err b = None"
  shows "validateVersion b s (e0 # rest) =
    ((case FindOne (states s) (AggregateName e0) (AggregateID e0) of
        Some found \<Rightarrow> found
      | None \<Rightarrow> \<lparr>st_AggregateName = AggregateName e0, st_AggregageID = AggregateID e0,
                  st_Version = 0\<rparr>),
     if AggregateVersion e0 \<le> currentVersion s (AggregateName e0) (AggregateID e0)
     then Some (VersionError (AggregateName e0) (AggregateID e0)
                  (currentVersion s (AggregateName e0) (AggregateID e0)) e0)
     else None)"
  using assms
  by (auto simp: validateVersion_def currentVersion_def Let_def split: option.splits)

lemma spec_valid_batch_first:
  "spec_valid_batch cur (e0 # rest) \<Longrightarrow> AggregateVersion e0 = cur + 1"
  by (simp add: spec_valid_batch_def upto_rec1 [of "cur + 1"])

text \<open>
  C1, as amended. For a call of \<open>Insert\<close> whose first event carries an aggregate-triple,
  and whose connection, transaction start and state lookup succeed: if the version of
  the first event is not above the current version of its aggregate, \<open>Insert\<close> fails
  with a \<open>VersionError\<close>; and if \<open>Insert\<close> fails with a \<open>VersionError\<close>, then the events
  violate the rule of the specification (same aggregate, contiguous versions from
  \<open>currentVersion + 1\<close>), the error carries the name, the id, the current version and
  the first event, and the store is left as it was: no event is committed.
\<close>

theorem Insert_VersionError:
  assumes "AggregateName e0 \<noteq> []" and "AggregateID e0 \<noteq> uuid_Nil"
    and "connectOnce_err b = None" and "StartTransaction_err b = None"
    and "Decode_err b = None"
  shows "(AggregateVersion e0 \<le> currentVersion s (AggregateName e0) (AggregateID e0)
            \<longrightarrow> is_VersionError (fst (Insert b s (e0 # rest))))
       \<and> (is_VersionError (fst (Insert b s (e0 # rest)))
            \<longrightarrow> \<not> spec_valid_batch (currentVersion s (AggregateName e0) (AggregateID e0))
                    (e0 # rest)
              \<and> Insert b s (e0 # rest) =
                  (Some (Wrap ''validate version''
                     (VersionError (AggregateName e0) (AggregateID e0)
                        (currentVersion s (AggregateName e0) (AggregateID e0)) e0)), s))"
proof (cases "AggregateVersion e0 \<le> currentVersion s (AggregateName e0) (AggregateID e0)")
  case True
  have ins: "Insert b s (e0 # rest) =
      (Some (Wrap ''validate version''
         (VersionError (AggregateName e0) (AggregateID e0)
            (currentVersion s (AggregateName e0) (AggregateID e0)) e0)), s)"
    using assms True by (simp add: Insert_invalid validateVersion_triple)
  have "\<not> spec_valid_batch (currentVersion s (AggregateName e0) (AggregateID e0)) (e0 # rest)"
    using True spec_valid_batch_first [of _ e0 rest] by fastforce
  then show ?thesis
    using ins by (simp add: is_VersionError_def)
next
  case False
  have "\<not> is_VersionError (fst (Insert b s (e0 # rest)))"
    using assms False by (intro Insert_validated) (simp add: validateVersion_triple)
  then show ?thesis
    using False by simp
qed

lemmas store_simps =
  Insert_def reliable_def validateVersion_def uuid_Nil_def FindOne_def insert_evt_def
  InsertOne_def violates_index_def make_entry_def updateState_def currentVersion_def
  zero_state_def aborted_def is_VersionError_def Let_def

theorem Insert_VersionError_witness:
  "AggregateName (example_event 2 ''foo'' 9 1) \<noteq> []
   \<and> AggregateID (example_event 2 ''foo'' 9 1) \<noteq> uuid_Nil
   \<and> connectOnce_err reliable = None \<and> StartTransaction_err reliable = None
   \<and> Decode_err reliable = None
   \<and> AggregateVersion (example_event 2 ''foo'' 9 1) \<le> currentVersion store_one ''foo'' 9
   \<and> is_VersionError (fst (Insert reliable store_one [example_event 2 ''foo'' 9 1]))
   \<and> \<not> spec_valid_batch (currentVersion store_one ''foo'' 9) [example_event 2 ''foo'' 9 1]
   \<and> Insert reliable store_one [example_event 2 ''foo'' 9 1] =
       (Some (Wrap ''validate version''
          (VersionError ''foo'' 9 1 (example_event 2 ''foo'' 9 1))), store_one)"
proof -
  have h: "AggregateName (example_event 2 ''foo'' 9 1) \<noteq> []"
    "AggregateID (example_event 2 ''foo'' 9 1) \<noteq> uuid_Nil"
    "connectOnce_err reliable = None" "StartTransaction_err reliable = None"
    "Decode_err reliable = None"
    by (simp_all add: example_event_def reliable_def uuid_Nil_def)
  have stale: "AggregateVersion (example_event 2 ''foo'' 9 1) \<le> currentVersion store_one ''foo'' 9"
    and cur: "currentVersion store_one ''foo'' 9 = 1"
    and nm: "AggregateName (example_event 2 ''foo'' 9 1) = ''foo''"
      "AggregateID (example_event 2 ''foo'' 9 1) = 9"
    by (simp_all add: example_event_def store_one_def currentVersion_def FindOne_def)
  show ?thesis
    using h stale Insert_VersionError [OF h, of store_one "[]"]
    by (simp add: cur nm)
qed

text \<open>
  The claim C1 as stated fails on a batch with a gap: the versions 1 and 3 for a new
  aggregate violate the rule, and \<open>Insert\<close> commits both events and sets the state to
  version 3.
\<close>

theorem Insert_gap_counterexample:
  "fst (Insert reliable empty_store batch_gap) = None
   \<and> \<not> spec_valid_batch (currentVersion empty_store ''foo'' 9) batch_gap
   \<and> map en_AggregateVersion (entries (snd (Insert reliable empty_store batch_gap))) = [1, 3]
   \<and> states (snd (Insert reliable empty_store batch_gap)) =
       [\<lparr>st_AggregateName = ''foo'', st_AggregageID = 9, st_Version = 3\<rparr>]"
  by (simp add: store_simps empty_store_def batch_gap_def example_event_def
      spec_valid_batch_def upto_rec1)


section \<open>Calls without an aggregate-triple\<close>








section \<open>Saving an aggregate\<close>

lemma insert_all_entries:
  "insert_all b es evts = Inr es' \<Longrightarrow> es' = es @ map (entry_of b) evts"
proof (induction evts arbitrary: es)
  case Nil
  then show ?case by simp
next
  case (Cons evt evts)
  from Cons.prems obtain bytes where enc: "Encode b (Data evt) = Inr bytes"
    and rest: "insert_all b (es @ [make_entry evt bytes]) evts = Inr es'"
    by (auto simp: insert_evt_def InsertOne_def split: sum.splits if_splits)
  from Cons.IH [OF rest] show ?case
    using enc by (simp add: entry_of_def)
qed

lemma Insert_success_entries:
  assumes "Insert b s evts = (None, s')"
  shows "entries s' = entries s @ map (entry_of b) evts"
proof -
  obtain es' where "insert_all b (entries s) evts = Inr es'" and "entries s' = es'"
    using assms
    by (auto simp: Insert_def split: option.splits prod.splits sum.splits)
  then show ?thesis
    using insert_all_entries by blast
qed

lemma Insert_failure_store: "fst (Insert b s evts) \<noteq> None \<Longrightarrow> snd (Insert b s evts) = s"
  by (auto simp: Insert_def split: option.splits prod.splits sum.splits)

text \<open>
  C2, as amended. For every aggregate \<open>a\<close> and every store, \<open>Save\<close> calls \<open>Insert\<close> once,
  with exactly the uncommitted changes of \<open>a\<close>. On success it clears the uncommitted
  changes. When \<open>Insert\<close> fails, the aggregate and its uncommitted changes are left
  unchanged, and the error of the store is returned wrapped in the context
  \<open>insert events\<close>: a \<open>VersionError\<close> of the store is the one that \<open>errors.As\<close> finds in
  the returned error. With the MongoDB store, a successful \<open>Save\<close> appends exactly the
  documents of the changes to the events collection, and a failed one leaves the store
  unchanged.
\<close>

theorem Save_result:
  "(case ins s (a_AggregateChanges a) of
      (None, s') \<Rightarrow> Save ins s a = (None, s', a\<lparr>a_AggregateChanges := []\<rparr>)
    | (Some err, s') \<Rightarrow> Save ins s a = (Some (Wrap ''insert events'' err), s', a))
   \<and> found_VersionError (fst (Save ins s a)) =
       found_VersionError (fst (ins s (a_AggregateChanges a)))
   \<and> (fst (Save (Insert b) st a) = None \<longrightarrow>
        entries (fst (snd (Save (Insert b) st a))) =
          entries st @ map (entry_of b) (a_AggregateChanges a)
        \<and> a_AggregateChanges (snd (snd (Save (Insert b) st a))) = [])
   \<and> (fst (Save (Insert b) st a) \<noteq> None \<longrightarrow> snd (Save (Insert b) st a) = (st, a))"
proof -
  obtain r st' where ins: "Insert b st (a_AggregateChanges a) = (r, st')"
    by (cases "Insert b st (a_AggregateChanges a)")
  have mongo: "(fst (Save (Insert b) st a) = None \<longrightarrow>
        entries (fst (snd (Save (Insert b) st a))) =
          entries st @ map (entry_of b) (a_AggregateChanges a)
        \<and> a_AggregateChanges (snd (snd (Save (Insert b) st a))) = [])
   \<and> (fst (Save (Insert b) st a) \<noteq> None \<longrightarrow> snd (Save (Insert b) st a) = (st, a))"
  proof (cases r)
    case None
    have "entries st' = entries st @ map (entry_of b) (a_AggregateChanges a)"
      using ins None by (simp add: Insert_success_entries)
    then show ?thesis
      using ins None by (simp add: Save_def FlushChanges_def)
  next
    case (Some err)
    have "st' = st"
      using Insert_failure_store [of b st "a_AggregateChanges a"] ins Some by simp
    then show ?thesis
      using ins Some by (simp add: Save_def)
  qed
  have gen: "(case ins s (a_AggregateChanges a) of
      (None, s') \<Rightarrow> Save ins s a = (None, s', a\<lparr>a_AggregateChanges := []\<rparr>)
    | (Some err, s') \<Rightarrow> Save ins s a = (Some (Wrap ''insert events'' err), s', a))"
    by (simp add: Save_def FlushChanges_def split: prod.splits option.splits)
  have "found_VersionError (fst (Save ins s a)) =
       found_VersionError (fst (ins s (a_AggregateChanges a)))"
    by (simp add: Save_def found_VersionError_def split: prod.splits option.splits)
  with gen mongo show ?thesis
    by blast
qed

theorem Save_result_witness:
  "Save (Insert reliable) store_one changed_foo =
     (None,
      \<lparr>entries = entries store_one
         @ [make_entry (example_event 2 ''foo'' 9 2) ''payload'',
            make_entry (example_event 3 ''foo'' 9 3) ''payload''],
       states = [\<lparr>st_AggregateName = ''foo'', st_AggregageID = 9, st_Version = 3\<rparr>]\<rparr>,
      changed_foo\<lparr>a_AggregateChanges := []\<rparr>)
   \<and> Save (Insert reliable) store_one stale_foo =
     (Some (Wrap ''insert events'' (Wrap ''validate version''
        (VersionError ''foo'' 9 1 (example_event 2 ''foo'' 9 1)))), store_one, stale_foo)
   \<and> found_VersionError (fst (Save (Insert reliable) store_one stale_foo)) =
       Some (VersionError ''foo'' 9 1 (example_event 2 ''foo'' 9 1))"
proof -
  have ok: "Insert reliable store_one (a_AggregateChanges changed_foo) =
     (None,
      \<lparr>entries = entries store_one
         @ [make_entry (example_event 2 ''foo'' 9 2) ''payload'',
            make_entry (example_event 3 ''foo'' 9 3) ''payload''],
       states = [\<lparr>st_AggregateName = ''foo'', st_AggregageID = 9, st_Version = 3\<rparr>]\<rparr>)"
    by (simp add: store_simps store_one_def changed_foo_def example_event_def)
  have stale: "Insert reliable store_one (a_AggregateChanges stale_foo) =
     (Some (Wrap ''validate version''
        (VersionError ''foo'' 9 1 (example_event 2 ''foo'' 9 1))), store_one)"
    by (simp add: store_simps store_one_def stale_foo_def example_event_def)
  show ?thesis
    using Save_result [of "Insert reliable" store_one changed_foo reliable store_one]
      Save_result [of "Insert reliable" store_one stale_foo reliable store_one]
    by (simp add: ok stale found_VersionError_def)
qed

text \<open>
  The claim C2 as stated fails where it says that the error is propagated unchanged: the
  error that \<open>Save\<close> returns is not the error of \<open>Insert\<close> but a wrapper around it.
\<close>

theorem Save_wraps_counterexample:
  "fst (Insert reliable store_one (a_AggregateChanges stale_foo)) =
     Some (Wrap ''validate version'' (VersionError ''foo'' 9 1 (example_event 2 ''foo'' 9 1)))
   \<and> fst (Save (Insert reliable) store_one stale_foo) =
     Some (Wrap ''insert events'' (Wrap ''validate version''
        (VersionError ''foo'' 9 1 (example_event 2 ''foo'' 9 1))))
   \<and> fst (Save (Insert reliable) store_one stale_foo) \<noteq>
     fst (Insert reliable store_one (a_AggregateChanges stale_foo))"
  by (simp add: Save_def store_simps store_one_def stale_foo_def example_event_def)

section \<open>Fetching a version of an aggregate\<close>

lemma query_New_fetch:
  "query_New [query_AggregateName [n], query_AggregateID [i],
      query_SortBy SortAggregateVersion SortAsc,
      query_AggregateVersion [version_Min lo, version_Max hi]] =
   \<lparr>Names = [], IDs = [], Times = no_times, AggregateNames = [n], AggregateIDs = [i],
    AggregateVersions = \<lparr>v_Exact = [], v_Min = [lo], v_Max = [hi], v_Ranges = []\<rparr>,
    Sortings = [(SortAggregateVersion, SortAsc)]\<rparr>"
  by (simp add: query_New_def empty_query_def no_versions_def)

lemma Test_fetch:
  "Test \<lparr>Names = [], IDs = [], Times = no_times, AggregateNames = [n], AggregateIDs = [i],
    AggregateVersions = \<lparr>v_Exact = [], v_Min = [lo], v_Max = [hi], v_Ranges = []\<rparr>,
    Sortings = srt\<rparr>
   = (\<lambda>evt. AggregateName evt = n \<and> AggregateID evt = i
       \<and> lo \<le> AggregateVersion evt \<and> AggregateVersion evt \<le> hi)"
  by (rule ext) (auto simp: Test_def test_times_def test_versions_def no_times_def)

lemma queryEvents_Store_Query:
  "queryEvents (Store_Query stored)
     (query_New [query_AggregateName [n], query_AggregateID [i],
      query_SortBy SortAggregateVersion SortAsc,
      query_AggregateVersion [version_Min lo, version_Max hi]])
   = Inr (events_between stored n i lo hi)"
  by (simp add: queryEvents_def Store_Query_def estream_All_def query_New_fetch Test_fetch
      sort_events_def events_between_def)

lemma sorted_events_between:
  "sorted (map AggregateVersion (events_between stored n i lo hi))"
  by (simp add: events_between_def)

text \<open>
  C3, as amended. For every aggregate \<open>a\<close> and requested version \<open>v\<close>, \<open>FetchVersion\<close>
  fetches from the store the events of \<open>(a.name, a.id)\<close> with a version between
  \<open>a.version + 1\<close> (in Go's 64 bit arithmetic) and \<open>max v 0\<close>, in ascending order of
  their versions, and applies them; an error of applying is returned wrapped; otherwise
  \<open>ErrVersionNotFound\<close> is returned exactly when the version of the aggregate after
  applying differs from \<open>max v 0\<close>.
\<close>

theorem FetchVersion_Store_Query:
  "FetchVersion (Store_Query stored) apply_history a v =
    (case apply_history a
            (events_between stored (a_AggregateName a) (a_AggregateID a)
               (go_int (a_AggregateVersion a + 1)) (max v 0)) of
       (Some err, a') \<Rightarrow> (Some (Wrap ''apply events'' err), a')
     | (None, a') \<Rightarrow>
        (if a_AggregateVersion a' \<noteq> max v 0 then Some ErrVersionNotFound else None, a'))
   \<and> sorted (map AggregateVersion
        (events_between stored (a_AggregateName a) (a_AggregateID a)
           (go_int (a_AggregateVersion a + 1)) (max v 0)))"
proof -
  have v: "(if v < 0 then 0 else v) = max v 0" by simp
  show ?thesis
    unfolding FetchVersion_def fetch_def v Let_def
    by (simp add: queryEvents_Store_Query sorted_events_between
        split: prod.splits option.splits)
qed

lemma events_between_stored_foo:
  "events_between stored_foo ''foo'' 9 1 2 = [example_event 1 ''foo'' 9 1, example_event 2 ''foo'' 9 2]"
  "events_between stored_foo ''foo'' 9 1 5 =
     [example_event 1 ''foo'' 9 1, example_event 2 ''foo'' 9 2, example_event 3 ''foo'' 9 3]"
  by (simp_all add: events_between_def stored_foo_def example_event_def)

theorem FetchVersion_Store_Query_witness:
  "FetchVersion (Store_Query stored_foo) ApplyHistory fresh_foo 2 =
     (None, fresh_foo\<lparr>a_AggregateVersion := 2\<rparr>)
   \<and> FetchVersion (Store_Query stored_foo) ApplyHistory fresh_foo 5 =
     (Some ErrVersionNotFound, fresh_foo\<lparr>a_AggregateVersion := 3\<rparr>)"
proof -
  have a: "a_AggregateName fresh_foo = ''foo''" "a_AggregateID fresh_foo = 9"
    "go_int (a_AggregateVersion fresh_foo + 1) = 1"
    by (simp_all add: fresh_foo_def go_int_def)
  show ?thesis
    using FetchVersion_Store_Query [of stored_foo ApplyHistory fresh_foo 2]
      FetchVersion_Store_Query [of stored_foo ApplyHistory fresh_foo 5]
    by (simp add: a events_between_stored_foo ApplyHistory_def example_event_def)
qed

text \<open>
  The claim C3 as stated fails for a negative requested version: for a new aggregate
  without stored events and \<open>v = -1\<close> the version after applying is 0, which differs
  from \<open>v\<close>, and \<open>FetchVersion\<close> returns no error.
\<close>

theorem FetchVersion_clamp_counterexample:
  "FetchVersion (Store_Query []) ApplyHistory fresh_foo (- 1) = (None, fresh_foo)
   \<and> a_AggregateVersion fresh_foo \<noteq> - 1"
  by (simp add: FetchVersion_def fetch_def queryEvents_def Store_Query_def estream_All_def
      ApplyHistory_def sort_events_def fresh_foo_def query_New_def)

text \<open>
  C9. For every aggregate and every negative requested version \<open>v\<close>, \<open>FetchVersion\<close>
  behaves exactly as if called with 0, whatever the store and the aggregate do: the
  version is clamped to 0 before the query is built, and the call succeeds only if the
  version of the aggregate after fetching is 0.
\<close>

theorem FetchVersion_negative:
  assumes "v < 0"
  shows "FetchVersion qry apply_history a v = FetchVersion qry apply_history a 0
    \<and> (fst (FetchVersion qry apply_history a v) = None \<longrightarrow>
         a_AggregateVersion (snd (FetchVersion qry apply_history a v)) = 0)"
  using assms
  by (auto simp: FetchVersion_def Let_def split: prod.splits option.splits if_splits)

theorem FetchVersion_negative_witness:
  "(- 7 :: int) < 0
   \<and> FetchVersion (Store_Query stored_foo) ApplyHistory fresh_foo (- 7) =
       FetchVersion (Store_Query stored_foo) ApplyHistory fresh_foo 0
   \<and> fst (FetchVersion (Store_Query stored_foo) ApplyHistory fresh_foo (- 7)) = None
   \<and> a_AggregateVersion (snd (FetchVersion (Store_Query stored_foo) ApplyHistory fresh_foo (- 7))) = 0"
proof -
  have h: "(- 7 :: int) < 0" by simp
  have ok: "fst (FetchVersion (Store_Query stored_foo) ApplyHistory fresh_foo 0) = None"
    by (simp add: FetchVersion_def fetch_def queryEvents_def Store_Query_def estream_All_def
        ApplyHistory_def sort_events_def fresh_foo_def query_New_def stored_foo_def
        example_event_def empty_query_def no_versions_def no_times_def Test_def test_times_def
        test_versions_def go_int_def)
  show ?thesis
    using h FetchVersion_negative [OF h, of "Store_Query stored_foo" ApplyHistory fresh_foo] ok
    by auto
qed

section \<open>The query of EventsFor\<close>

text \<open>
  C4. For a target that is \<open>ProgressAware\<close> with a non-zero progress time \<open>p\<close>,
  \<open>EventsFor\<close> queries with the base query of the job merged with the time constraint
  \<open>After (p - 1 nanosecond)\<close>; for a target that is not \<open>ProgressAware\<close>, or whose
  progress is the zero time, it queries with exactly the base query. Querying with a
  query \<open>q\<close> means: unless the cache holds a result for the hash of \<open>q\<close>, the store is
  asked \<open>q\<close>.
\<close>

theorem EventsFor_query_merged:
  "(p \<noteq> 0 \<longrightarrow>
      EventsFor hashQuery store_Query Merge After c1 c2 j (ProgressAwareTarget p) =
        job_queryEvents hashQuery store_Query c1 c2 j (Merge (job_query j) (After (p - 1))) [])
   \<and> EventsFor hashQuery store_Query Merge After c1 c2 j (ProgressAwareTarget 0) =
        job_queryEvents hashQuery store_Query c1 c2 j (job_query j) []
   \<and> EventsFor hashQuery store_Query Merge After c1 c2 j PlainTarget =
        job_queryEvents hashQuery store_Query c1 c2 j (job_query j) []
   \<and> (c1 (hashQuery q) = None \<and> c2 (hashQuery q) = None \<longrightarrow>
        job_queryEvents hashQuery store_Query c1 c2 j q [] =
          (case store_Query q of
             Inl err \<Rightarrow> Inl (Wrap ''query events'' err)
           | Inr str \<Rightarrow> Inr (Intercept str (hashQuery q), job_beforeEvent j, job_filter j)))"
  by (simp add: EventsFor_def EventsFor_query_def job_queryEvents_def run_def cached_def
      split: sum.splits)

theorem EventsFor_query_merged_witness:
  "(1000 :: int) \<noteq> 0
   \<and> EventsFor (\<lambda>q. 0) echo_Query query_Merge After_query Map.empty Map.empty foo_job
        (ProgressAwareTarget 1000) =
      Inr (Intercept
            \<lparr>Names = [], IDs = [],
             Times = \<lparr>t_Exact = [], t_Min = 1000, t_Max = 0, t_Ranges = []\<rparr>,
             AggregateNames = [''foo''], AggregateIDs = [], AggregateVersions = no_versions,
             Sortings = []\<rparr> 0, [], [])
   \<and> EventsFor (\<lambda>q. 0) echo_Query query_Merge After_query Map.empty Map.empty foo_job
        PlainTarget =
      Inr (Intercept (query_New [query_AggregateName [''foo'']]) 0, [], [])"
proof -
  have m: "query_Merge (query_New [query_AggregateName [''foo'']]) (After_query 999) =
      \<lparr>Names = [], IDs = [],
       Times = \<lparr>t_Exact = [], t_Min = 1000, t_Max = 0, t_Ranges = []\<rparr>,
       AggregateNames = [''foo''], AggregateIDs = [], AggregateVersions = no_versions,
       Sortings = []\<rparr>"
    by (simp add: query_Merge_def foo_job_def After_query_def query_New_def empty_query_def
        no_times_def no_versions_def merge_min_def merge_max_def)
  have j: "job_query foo_job = query_New [query_AggregateName [''foo'']]"
    "job_beforeEvent foo_job = []" "job_filter foo_job = []"
    by (simp_all add: foo_job_def)
  show ?thesis
    using
      EventsFor_query_merged [of 1000 "\<lambda>q. 0" echo_Query query_Merge After_query Map.empty
        Map.empty foo_job "query_Merge (job_query foo_job) (After_query (1000 - 1))"]
      EventsFor_query_merged [of 1000 "\<lambda>q. 0" echo_Query query_Merge After_query Map.empty
        Map.empty foo_job "job_query foo_job"]
    by (simp add: m j echo_Query_def)
qed

section \<open>The tickets of the continuous schedule\<close>

text \<open>
  C8. For the events that a continuous schedule receives from the bus, it emits, in
  their order, exactly one ticket with the aggregate name and the aggregate id of the
  event for each event that carries an aggregate-triple (a non-empty name and a non-nil
  id) and passes the filter query under \<open>Test\<close>, and no ticket for any other event; in
  particular an event without an aggregate-triple is discarded.
\<close>

theorem handleEvents_tickets:
  "handleEvents test c evts =
     concat (map (\<lambda>evt.
       if AggregateName evt \<noteq> [] \<and> AggregateID evt \<noteq> uuid_Nil \<and> test (c_filter c) evt
       then [\<lparr>aggregateName = AggregateName evt, aggregateID = AggregateID evt\<rparr>]
       else []) evts)
   \<and> (AggregateName evt = [] \<or> AggregateID evt = uuid_Nil \<longrightarrow>
        shouldDiscard test evt (c_filter c) \<and> handleEvents test c [evt] = [])"
proof -
  have "handleEvents test c evts =
     concat (map (\<lambda>evt.
       if AggregateName evt \<noteq> [] \<and> AggregateID evt \<noteq> uuid_Nil \<and> test (c_filter c) evt
       then [\<lparr>aggregateName = AggregateName evt, aggregateID = AggregateID evt\<rparr>]
       else []) evts)"
    by (induction evts) (simp_all add: shouldDiscard_def)
  then show ?thesis
    by (simp add: shouldDiscard_def)
qed

theorem handleEvents_tickets_witness:
  "handleEvents Test foo_continously
     [example_event 1 ''foo'' 9 1, example_event 2 [] 0 0, example_event 3 ''bar'' 4 1,
      example_event 4 ''foo'' 0 1, example_event 5 ''foo'' 8 7] =
     [\<lparr>aggregateName = ''foo'', aggregateID = 9\<rparr>, \<lparr>aggregateName = ''foo'', aggregateID = 8\<rparr>]
   \<and> (AggregateName (example_event 2 [] 0 0) = []
        \<or> AggregateID (example_event 2 [] 0 0) = uuid_Nil)
   \<and> shouldDiscard Test (example_event 2 [] 0 0) (c_filter foo_continously)
   \<and> handleEvents Test foo_continously [example_event 2 [] 0 0] = []"
proof -
  have t: "Test (c_filter foo_continously) = (\<lambda>evt. AggregateName evt = ''foo'')"
    by (rule ext)
       (simp add: foo_continously_def Test_def test_times_def test_versions_def query_New_def
         empty_query_def no_times_def no_versions_def)
  show ?thesis
    using
      handleEvents_tickets [of Test foo_continously
        "[example_event 1 ''foo'' 9 1, example_event 2 [] 0 0, example_event 3 ''bar'' 4 1,
          example_event 4 ''foo'' 0 1, example_event 5 ''foo'' 8 7]" "example_event 2 [] 0 0"]
    by (simp add: t example_event_def uuid_Nil_def)
qed

section \<open>Stopping a subscription\<close>

lemma second_select_first_pos:
  "second_select timer sigs =
     first_pos (\<lambda>s. s = HandleDone \<or> (timer \<and> s = TimerFired)) sigs"
proof (induction sigs)
  case Nil
  then show ?case by simp
next
  case (Cons s sigs)
  then show ?case by (cases s; cases timer; simp)
qed

text \<open>
  C7, as amended. Once the parent context is canceled while the handler loop has not
  completed, \<open>handleCancel\<close> closes the stop signal at the first of the following
  signals: without the option \<open>StopTimeout\<close> (or with a timeout that is not positive),
  the completion of the handler loop, and nothing else, since no timer is started; with
  \<open>StopTimeout d\<close>, \<open>d > 0\<close>, the completion of the handler loop or the firing of the
  timer of \<open>d\<close>, whichever comes first. (The elapsing of \<open>d\<close> is the signal
  \<open>TimerFired\<close>; real time is not modelled.)
\<close>

theorem handleCancel_stop:
  "handleCancel sub (ParentDone # sigs) =
     map_option Suc
       (first_pos (\<lambda>s. s = HandleDone \<or> (stopTimeout sub > 0 \<and> s = TimerFired)) sigs)
   \<and> handleCancel (newSubscription []) (ParentDone # sigs) =
     map_option Suc (first_pos (\<lambda>s. s = HandleDone) sigs)
   \<and> (0 < d \<longrightarrow>
       handleCancel (newSubscription [StopTimeout d]) (ParentDone # sigs) =
       map_option Suc (first_pos (\<lambda>s. s = HandleDone \<or> s = TimerFired) sigs))"
  by (simp add: second_select_first_pos newSubscription_def StopTimeout_def)

theorem handleCancel_stop_witness:
  "handleCancel (newSubscription []) [ParentDone, TimerFired, ParentDone, HandleDone] = Some 4
   \<and> (0 :: int) < 5000
   \<and> handleCancel (newSubscription [StopTimeout 5000]) [ParentDone, ParentDone, TimerFired, HandleDone]
       = Some 3
   \<and> handleCancel (newSubscription [StopTimeout 5000]) [ParentDone, HandleDone, TimerFired]
       = Some 2"
  using handleCancel_stop [of "newSubscription []" "[TimerFired, ParentDone, HandleDone]" 5000]
    handleCancel_stop [of "newSubscription []" "[ParentDone, TimerFired, HandleDone]" 5000]
    handleCancel_stop [of "newSubscription []" "[HandleDone, TimerFired]" 5000]
  by simp

text \<open>
  The claim C7 as stated fails for a subscription without \<open>StopTimeout\<close>: when the
  parent context is canceled and the handler loop has not completed, the stop signal is
  not closed, and neither is it after any further signal other than the completion of
  the handler loop.
\<close>

theorem handleCancel_not_immediate_counterexample:
  "handleCancel (newSubscription []) [ParentDone] = None
   \<and> handleCancel (newSubscription []) [ParentDone, TimerFired, ParentDone] = None
   \<and> stopTimeout (newSubscription []) = 0"
  by (simp add: newSubscription_def)

section \<open>The query cache\<close>


lemma intercept_loop_cache:
  "fst (intercept_loop c h evts choices) =
    (if snd (snd (intercept_loop c h evts choices)) = Committed
     then update c h (fst (snd (intercept_loop c h evts choices))) else c)"
  by (induction c h evts choices rule: intercept_loop.induct) simp_all

text \<open>
  What the code does on the paths that the claim C5 describes: when the goroutine
  returns at a \<open>ctx.Done()\<close> case, or has not returned, the cache is unchanged, and the
  next run of the query asks the store again unless the cache has got the entry by other
  means.
\<close>

lemma intercept_not_committed:
  assumes "intercept c h choices = (c', sent, st)" and "st \<noteq> Committed"
  shows "c' = c"
  using assms intercept_loop_cache [of c h "[]" choices]
  by (simp add: intercept_def)


text \<open>
  C5 fails on the code: the context is canceled during the build, and the accumulated
  slice is committed all the same, because the select chooses the closed stream. The
  entry is the slice cut short, and a later run of the same query replays it and does
  not ask the store.
\<close>

theorem intercept_commits_canceled_build:
  "ctx_canceled canceled_build
   \<and> intercept Map.empty 7 canceled_build =
       (Map.empty(7 \<mapsto> [example_event 1 ''foo'' 9 1]), [example_event 1 ''foo'' 9 1], Committed)
   \<and> run (\<lambda>q. 7) (\<lambda>q. Inr q) (fst (intercept Map.empty 7 canceled_build))
        (fst (intercept Map.empty 7 canceled_build)) (0 :: nat) =
       Replay [example_event 1 ''foo'' 9 1]"
  by (simp add: canceled_build_def ctx_canceled_def intercept_def update_def run_def cached_def)

section \<open>Replaying a cached query\<close>





end
